theory Spec2Isabelle
  imports Complex_Main "HOL-Library.AList"
begin

section \<open>JavaScript values\<close>

text \<open>
  The values that flow through the error normalizer and the cache controller are plain
  data: \<^verbatim>\<open>undefined\<close>, \<^verbatim>\<open>null\<close>, booleans, numbers, strings, arrays and objects.
  Numbers are the integers (HTTP statuses, millisecond timestamps); an object is the list
  of its own properties in enumeration order. \<open>JProto m\<close> is the member named \<open>m\<close> that
  every plain object inherits from \<^verbatim>\<open>Object.prototype\<close>: a built-in function, or for
  \<^verbatim>\<open>__proto__\<close> the prototype object itself.
\<close>

datatype jsval =
    JUndefined
  | JNull
  | JBool bool
  | JNum int
  | JStr string
  | JArr "jsval list"
  | JObj "(string \<times> jsval) list"
  | JProto string

text \<open>ToBoolean, as applied by \<^verbatim>\<open>if\<close>, \<^verbatim>\<open>!\<close>, \<^verbatim>\<open>&&\<close> and \<^verbatim>\<open>||\<close>.\<close>

fun truthy :: "jsval \<Rightarrow> bool" where
  "truthy JUndefined = False"
| "truthy JNull = False"
| "truthy (JBool b) = b"
| "truthy (JNum n) = (n \<noteq> 0)"
| "truthy (JStr s) = (s \<noteq> [])"
| "truthy (JArr xs) = True"
| "truthy (JObj kvs) = True"
| "truthy (JProto m) = True"

fun nullish :: "jsval \<Rightarrow> bool" where
  "nullish JUndefined = True"
| "nullish JNull = True"
| "nullish v = False"

text \<open>
  Reading a named property \<^verbatim>\<open>v.k\<close> of a value that is neither \<^verbatim>\<open>null\<close> nor
  \<^verbatim>\<open>undefined\<close>. The names read by the code (\<^verbatim>\<open>name\<close>, \<^verbatim>\<open>data\<close>, \<^verbatim>\<open>message\<close>,
  \<^verbatim>\<open>path\<close>, \<^verbatim>\<open>errors\<close>, \<^verbatim>\<open>stack\<close>, \<^verbatim>\<open>cause\<close>) are own properties of objects only;
  on a primitive or an array the read gives \<^verbatim>\<open>undefined\<close>. Of these names a built-in
  function has \<^verbatim>\<open>name\<close> alone: \<^verbatim>\<open>Object\<close> for the constructor, its own name for
  the others. The callers write out the TypeError of a read on \<^verbatim>\<open>null\<close> or
  \<^verbatim>\<open>undefined\<close>.
\<close>

fun getProp :: "jsval \<Rightarrow> string \<Rightarrow> jsval" where
  "getProp (JObj kvs) k = (case map_of kvs k of Some v \<Rightarrow> v | None \<Rightarrow> JUndefined)"
| "getProp (JProto m) k =
     (if k = ''name'' \<and> m \<noteq> ''__proto__''
      then JStr (if m = ''constructor'' then ''Object'' else m)
      else JUndefined)"
| "getProp v k = JUndefined"

text \<open>
  Assignment \<^verbatim>\<open>o.k = v\<close> on an object: an existing key keeps its place, a new one goes
  last. On a primitive the assignment does nothing (the module is not in strict mode). On
  an array or a built-in it sets a property that the values here cannot hold; they stay as
  they are.
\<close>

fun setProp :: "jsval \<Rightarrow> string \<Rightarrow> jsval \<Rightarrow> jsval" where
  "setProp (JObj kvs) k v = JObj (AList.update k v kvs)"
| "setProp w k v = w"

fun isArray :: "jsval \<Rightarrow> bool" where
  "isArray (JArr xs) = True"
| "isArray v = False"

fun elems :: "jsval \<Rightarrow> jsval list" where
  "elems (JArr xs) = xs"
| "elems v = []"

subsection \<open>Number and string conversions\<close>

definition digit :: "nat \<Rightarrow> char" where
  "digit d = ''0123456789'' ! d"

fun showNat :: "nat \<Rightarrow> string" where
  "showNat n = (if n < 10 then [digit n] else showNat (n div 10) @ [digit (n mod 10)])"

declare showNat.simps [simp del]

text \<open>\<^verbatim>\<open>Number.prototype.toString\<close> on an integer (plain decimal below \<open>10\<^sup>2\<^sup>1\<close>).\<close>

definition showInt :: "int \<Rightarrow> string" where
  "showInt i = (if i < 0 then CHR ''-'' # showNat (nat (- i)) else showNat (nat i))"

text \<open>\<^verbatim>\<open>Array.prototype.join\<close> on strings and \<^verbatim>\<open>String.prototype.split\<close> on a one-character separator.\<close>

fun join :: "string \<Rightarrow> string list \<Rightarrow> string" where
  "join sep [] = []"
| "join sep [x] = x"
| "join sep (x # y # ys) = x @ sep @ join sep (y # ys)"

fun split :: "char \<Rightarrow> string \<Rightarrow> string list" where
  "split c [] = [[]]"
| "split c (x # xs) =
     (if x = c then [] # split c xs
      else (case split c xs of [] \<Rightarrow> [[x]] | y # ys \<Rightarrow> (x # y) # ys))"

text \<open>
  ToString, as applied by template literals, by \<^verbatim>\<open>+\<close> with a string and by property
  keys. An object is a plain object, an array joins its elements with a comma, a built-in
  function gives its native source text.
\<close>

fun toStr :: "jsval \<Rightarrow> string" where
  "toStr JUndefined = ''undefined''"
| "toStr JNull = ''null''"
| "toStr (JBool b) = (if b then ''true'' else ''false'')"
| "toStr (JNum n) = showInt n"
| "toStr (JStr s) = s"
| "toStr (JArr xs) = join '','' (map (\<lambda>x. if nullish x then [] else toStr x) xs)"
| "toStr (JObj kvs) = ''[object Object]''"
| "toStr (JProto m) =
     (if m = ''__proto__'' then ''[object Object]''
      else ''function '' @ (if m = ''constructor'' then ''Object'' else m) @
           ''() { [native code] }'')"

text \<open>lodash \<^verbatim>\<open>_.isEmpty\<close>: no own enumerable keys, or a length of zero.\<close>

fun isEmpty :: "jsval \<Rightarrow> bool" where
  "isEmpty (JStr s) = (s = [])"
| "isEmpty (JArr xs) = (xs = [])"
| "isEmpty (JObj kvs) = (kvs = [])"
| "isEmpty v = True"

datatype jserror = TypeError

text \<open>An array read \<^verbatim>\<open>xs[i]\<close>: \<^verbatim>\<open>undefined\<close> (here \<open>None\<close>) past the end.\<close>

definition nth_opt :: "'a list \<Rightarrow> nat \<Rightarrow> 'a option" where
  "nth_opt xs i = (if i < length xs then Some (xs ! i) else None)"

text \<open>Decimal digits, and the digits of the other bases.\<close>

definition digitVal :: "char \<Rightarrow> nat option" where
  "digitVal c = map_of (zip ''0123456789'' [0, 1, 2, 3, 4, 5, 6, 7, 8, 9]) c"

definition isDigit :: "char \<Rightarrow> bool" where
  "isDigit c = (digitVal c \<noteq> None)"

fun parseNat :: "nat \<Rightarrow> string \<Rightarrow> nat option" where
  "parseNat acc [] = Some acc"
| "parseNat acc (c # cs) =
     (case digitVal c of None \<Rightarrow> None | Some d \<Rightarrow> parseNat (10 * acc + d) cs)"

definition hexVal :: "char \<Rightarrow> nat option" where
  "hexVal c = map_of (zip ''0123456789abcdefABCDEF''
                 [0, 1, 2, 3, 4, 5, 6, 7, 8, 9, 10, 11, 12, 13, 14, 15, 10, 11, 12, 13, 14, 15]) c"

fun parseRadix :: "nat \<Rightarrow> nat \<Rightarrow> string \<Rightarrow> nat option" where
  "parseRadix b acc [] = Some acc"
| "parseRadix b acc (c # cs) =
     (case hexVal c of
        None \<Rightarrow> None
      | Some d \<Rightarrow> if d < b then parseRadix b (b * acc + d) cs else None)"

text \<open>\<^verbatim>\<open>String.prototype.trim\<close>, on the white space and line terminators of ASCII.\<close>

definition isSpace :: "char \<Rightarrow> bool" where
  "isSpace c = (c \<in> set [CHR 0x09, CHR 0x0A, CHR 0x0B, CHR 0x0C, CHR 0x0D, CHR '' ''])"

definition trim :: "string \<Rightarrow> string" where
  "trim s = rev (dropWhile isSpace (rev (dropWhile isSpace s)))"

text \<open>
  A number as an arithmetic operator sees it: NaN, a finite value or an infinity. Finite
  values are exact; the rounding of a string to the nearest double is not modelled.
\<close>

datatype jsnum = NaN | Finite real | PosInfinity | NegInfinity

fun negate :: "jsnum \<Rightarrow> jsnum" where
  "negate NaN = NaN"
| "negate (Finite x) = Finite (- x)"
| "negate PosInfinity = NegInfinity"
| "negate NegInfinity = PosInfinity"

text \<open>
  ToNumber on a string, after the grammar of StringNumericLiteral: white space on both
  sides is dropped and the empty string is 0; a prefix \<^verbatim>\<open>0x\<close>, \<^verbatim>\<open>0o\<close> or \<^verbatim>\<open>0b\<close> is
  followed by at least one digit of the base and takes no sign; a decimal literal has an
  optional sign and is \<^verbatim>\<open>Infinity\<close>, or digits with an optional fraction and an optional
  exponent, or a dot with digits and an optional exponent. Anything else is NaN.
\<close>

definition exponentPart :: "string \<Rightarrow> int option" where
  "exponentPart s =
     (case s of
        [] \<Rightarrow> Some 0
      | c # cs \<Rightarrow>
          if c = CHR ''e'' \<or> c = CHR ''E'' then
            (case cs of
               [] \<Rightarrow> None
             | d # ds \<Rightarrow>
                 if d = CHR ''+'' then (if ds = [] then None else map_option int (parseNat 0 ds))
                 else if d = CHR ''-''
                 then (if ds = [] then None else map_option (\<lambda>n. - int n) (parseNat 0 ds))
                 else map_option int (parseNat 0 cs))
          else None)"

definition scale10 :: "real \<Rightarrow> int \<Rightarrow> real" where
  "scale10 x e = (if 0 \<le> e then x * 10 ^ nat e else x / 10 ^ nat (- e))"

definition unsignedDecimal :: "string \<Rightarrow> real option" where
  "unsignedDecimal s =
     (let ip = takeWhile isDigit s;
          r1 = dropWhile isDigit s;
          fp = (case r1 of [] \<Rightarrow> []
                | c # cs \<Rightarrow> if c = CHR ''.'' then takeWhile isDigit cs else []);
          r2 = (case r1 of [] \<Rightarrow> []
                | c # cs \<Rightarrow> if c = CHR ''.'' then dropWhile isDigit cs else r1)
      in if ip = [] \<and> fp = [] then None
         else case parseNat 0 ip of
                None \<Rightarrow> None
              | Some i \<Rightarrow>
                 (case parseNat 0 fp of
                    None \<Rightarrow> None
                  | Some f \<Rightarrow>
                     (case exponentPart r2 of
                        None \<Rightarrow> None
                      | Some e \<Rightarrow> Some (scale10 (real i + real f / 10 ^ length fp) e))))"

definition decimalLiteral :: "string \<Rightarrow> jsnum" where
  "decimalLiteral s =
     (if s = ''Infinity'' then PosInfinity
      else case unsignedDecimal s of None \<Rightarrow> NaN | Some x \<Rightarrow> Finite x)"

definition radixLiteral :: "nat \<Rightarrow> string \<Rightarrow> jsnum" where
  "radixLiteral b ds =
     (if ds = [] then NaN
      else case parseRadix b 0 ds of None \<Rightarrow> NaN | Some n \<Rightarrow> Finite (real n))"

definition stringToNumber :: "string \<Rightarrow> jsnum" where
  "stringToNumber s0 =
     (let s = trim s0
      in if s = [] then Finite 0
         else if take 2 s = ''0x'' \<or> take 2 s = ''0X'' then radixLiteral 16 (drop 2 s)
         else if take 2 s = ''0o'' \<or> take 2 s = ''0O'' then radixLiteral 8 (drop 2 s)
         else if take 2 s = ''0b'' \<or> take 2 s = ''0B'' then radixLiteral 2 (drop 2 s)
         else if take 1 s = ''+'' then decimalLiteral (drop 1 s)
         else if take 1 s = ''-'' then negate (decimalLiteral (drop 1 s))
         else decimalLiteral s)"

text \<open>ToNumber on what an array read of strings gives: \<^verbatim>\<open>undefined\<close> is NaN.\<close>

fun toNumber :: "string option \<Rightarrow> jsnum" where
  "toNumber None = NaN"
| "toNumber (Some s) = stringToNumber s"

section \<open>Requests\<close>

text \<open>
  A document carries the time its cache was invalidated, a \<^verbatim>\<open>Date\<close> given by its
  milliseconds since the epoch, or no such property.
\<close>

record doc =
  cacheInvalidatedAt :: "int option"

record res =
  statusCode :: nat

text \<open>
  The parts of the request the module reads: \<^verbatim>\<open>req.user\<close>, \<^verbatim>\<open>req.method\<close> (here \<open>req_method\<close>),
  \<^verbatim>\<open>req.res\<close> (absent when no response is attached), the entries of \<^verbatim>\<open>req.session\<close>,
  \<^verbatim>\<open>req.headers['if-none-match']\<close>, \<^verbatim>\<open>req.data.piece\<close>, \<^verbatim>\<open>req.data.page\<close> and
  \<^verbatim>\<open>req.params._id\<close>.
\<close>

record req =
  user :: jsval
  req_method :: string
  res :: "res option"
  session :: "(string \<times> jsval) list"
  if_none_match :: "string option"
  data_piece :: "doc option"
  data_page :: "doc option"
  params__id :: jsval

text \<open>What a call does to the outside, in the order it does it.\<close>

datatype effect =
    UtilError
  | StructuredLog string jsval jsval
  | ConsoleError jsval
  | ResHeader string string
  | ResStatus jsval
  | ResSend jsval

section \<open>Cache controller\<close>

definition isSafeToCache :: "req \<Rightarrow> jserror + bool" where
  "isSafeToCache r =
     (if truthy (user r) then Inr False
      else case res r of
        None \<Rightarrow> Inl TypeError
      | Some rs \<Rightarrow>
          if statusCode rs \<ge> 400 then Inr False
          else Inr (list_all (\<lambda>(key, val).
                 key = ''cookie'' \<or> ((key = ''flash'' \<or> key = ''passport'') \<and> isEmpty val))
               (session r)))"

text \<open>\<^verbatim>\<open>releaseId\<close> is what the asset resolver's \<^verbatim>\<open>getReleaseId()\<close> returns.\<close>

definition generateETagParts :: "string \<Rightarrow> req \<Rightarrow> doc option \<Rightarrow> string list option" where
  "generateETagParts releaseId r d =
     (let context = (case d of Some x \<Rightarrow> Some x
                     | None \<Rightarrow> (case data_piece r of Some p \<Rightarrow> Some p | None \<Rightarrow> data_page r))
      in case context of
           None \<Rightarrow> None
         | Some c \<Rightarrow> (case cacheInvalidatedAt c of
                        None \<Rightarrow> None
                      | Some t \<Rightarrow> Some [releaseId, showInt t]))"

definition setETag :: "req \<Rightarrow> string list \<Rightarrow> jserror + effect list" where
  "setETag r eTagParts =
     (case res r of
        None \<Rightarrow> Inl TypeError
      | Some rs \<Rightarrow> Inr [ResHeader ''ETag'' (join '':'' eTagParts)])"

text \<open>
  \<^verbatim>\<open>req.headers['if-none-match'] ? req.headers['if-none-match'].split(':') : []\<close>
\<close>

definition clientETagParts :: "req \<Rightarrow> string list" where
  "clientETagParts r =
     (case if_none_match r of
        None \<Rightarrow> []
      | Some h \<Rightarrow> if h = [] then [] else split CHR '':'' h)"

text \<open>
  \<^verbatim>\<open>(now - clientSetAt) / 1000 > maxAge\<close>, for the number \<^verbatim>\<open>clientSetAt\<close> that the
  subtraction makes of the third part of the client's tag; a comparison with NaN is false.
\<close>

fun tooOld :: "int \<Rightarrow> jsnum \<Rightarrow> real \<Rightarrow> bool" where
  "tooOld now NaN maxAge = False"
| "tooOld now (Finite clientSetAt) maxAge = ((real_of_int now - clientSetAt) / 1000 > maxAge)"
| "tooOld now PosInfinity maxAge = False"
| "tooOld now NegInfinity maxAge = True"

text \<open>
  \<^verbatim>\<open>now\<close> is the value of \<^verbatim>\<open>Date.now()\<close>, in milliseconds; \<^verbatim>\<open>maxAge\<close> is in seconds.
  The result is what \<^verbatim>\<open>checkETag\<close> returns together with the headers it has set. In
  \<^verbatim>\<open>[ ...eTagParts, now ]\<close> the number \<^verbatim>\<open>now\<close> is joined as its decimal string.
\<close>

definition checkETag :: "string \<Rightarrow> int \<Rightarrow> req \<Rightarrow> doc option \<Rightarrow> real \<Rightarrow> jserror + (bool \<times> effect list)" where
  "checkETag releaseId now r d maxAge =
     (case generateETagParts releaseId r d of
        None \<Rightarrow> Inr (False, [])
      | Some eTagParts \<Rightarrow>
         (case isSafeToCache r of
            Inl e \<Rightarrow> Inl e
          | Inr False \<Rightarrow> Inr (False, [])
          | Inr True \<Rightarrow>
             (let doesETagMatch =
                    (nth_opt (clientETagParts r) 0 = nth_opt eTagParts 0 \<and>
                     nth_opt (clientETagParts r) 1 = nth_opt eTagParts 1)
              in if \<not> doesETagMatch \<or> tooOld now (toNumber (nth_opt (clientETagParts r) 2)) maxAge
                 then map_sum id (Pair False) (setETag r (eTagParts @ [showInt now]))
                 else map_sum id (Pair True) (setETag r (clientETagParts r)))))"

section \<open>Route URLs\<close>

text \<open>
  \<^verbatim>\<open>cssName\<close> stands for \<^verbatim>\<open>self.apos.util.cssName\<close> and \<^verbatim>\<open>action\<close> for
  \<^verbatim>\<open>self.action\<close>.
\<close>

definition getRouteUrl :: "(string \<Rightarrow> string) \<Rightarrow> string \<Rightarrow> string \<Rightarrow> string" where
  "getRouteUrl cssName action nm =
     (if take 1 nm = ''/'' then nm
      else if list_ex (\<lambda>c. c \<in> set '':/*'') nm then action @ ''/'' @ nm
      else action @ ''/'' @ cssName nm)"

text \<open>
  Modelled from the spec: \<^verbatim>\<open>apos.util.cssName\<close> is not part of the module's source. The
  spec has it convert a name from identifier case to hyphenated case: an upper-case letter
  becomes a hyphen followed by its lower-case letter.
\<close>

definition lowerOf :: "char \<Rightarrow> char option" where
  "lowerOf c = map_of (zip ''ABCDEFGHIJKLMNOPQRSTUVWXYZ'' ''abcdefghijklmnopqrstuvwxyz'') c"

fun hyphenate :: "string \<Rightarrow> string" where
  "hyphenate [] = []"
| "hyphenate (c # cs) =
     (case lowerOf c of None \<Rightarrow> c # hyphenate cs | Some l \<Rightarrow> CHR ''-'' # l # hyphenate cs)"

section \<open>Error normalizer\<close>

text \<open>
  The collaborators the normalizer calls and that are not part of the module's source:
  \<^verbatim>\<open>self.apos.http.errors\<close>, the taxonomy, a plain object given by its own entries, a
  status for a name; \<^verbatim>\<open>self.apos.error(name, data)\<close>, which builds an error; and the
  structured logger \<^verbatim>\<open>self.logError(req, key, msg, fields)\<close>, which returns (\<open>None\<close>) or
  throws a value.
\<close>

record apos =
  http_errors :: "string \<rightharpoonup> nat"
  error :: "string \<Rightarrow> jsval \<Rightarrow> jsval"
  self_logError :: "string \<Rightarrow> jsval \<Rightarrow> jsval \<Rightarrow> jsval option"

text \<open>
  The lookup \<^verbatim>\<open>self.apos.http.errors[key]\<close>. A lookup on a plain object finds its own
  entry, and otherwise the member of that name inherited from \<^verbatim>\<open>Object.prototype\<close>;
  \<^verbatim>\<open>__proto__\<close> is always the prototype, a status stored under that name being ignored.
\<close>

definition objectPrototype :: "string list" where
  "objectPrototype =
     [''constructor'', ''__defineGetter__'', ''__defineSetter__'', ''hasOwnProperty'',
      ''__lookupGetter__'', ''__lookupSetter__'', ''isPrototypeOf'',
      ''propertyIsEnumerable'', ''toString'', ''valueOf'', ''__proto__'',
      ''toLocaleString'']"

definition lookupError :: "(string \<rightharpoonup> nat) \<Rightarrow> string \<Rightarrow> jsval" where
  "lookupError errors k =
     (if k = ''__proto__'' then JProto k
      else case errors k of
             Some c \<Rightarrow> JNum (int c)
           | None \<Rightarrow> if k \<in> set objectPrototype then JProto k else JUndefined)"

datatype level = Info | Error

record response =
  name :: jsval
  data :: jsval
  code :: jsval
  path :: jsval
  fn :: level
  message :: jsval

text \<open>
  The test \<^verbatim>\<open>err && err.name && self.apos.http.errors[err.name]\<close>: what the lookup
  gives, when all three are truthy.
\<close>

definition knownStatus :: "(string \<rightharpoonup> nat) \<Rightarrow> jsval \<Rightarrow> jsval option" where
  "knownStatus errors err =
     (if truthy err \<and> truthy (getProp err ''name'') \<and>
         truthy (lookupError errors (toStr (getProp err ''name'')))
      then Some (lookupError errors (toStr (getProp err ''name'')))
      else None)"

text \<open>The object built for each sub-error of an \<^verbatim>\<open>invalid\<close> error, without \<^verbatim>\<open>fn\<close>.\<close>

definition subError :: "response \<Rightarrow> jsval" where
  "subError response =
     JObj [(''name'', name response), (''code'', code response),
           (''message'', message response), (''data'', data response),
           (''path'', path response)]"

lemma size_map_of:
  "map_of kvs k = Some v \<Longrightarrow> size v < Suc (size_list (size_prod (\<lambda>_. 0) size) kvs)"
  by (induction kvs) (auto split: if_splits)

lemma size_getProp: "size (getProp v k) \<le> size v"
  by (cases v) (auto split: option.splits dest: size_map_of less_imp_le)

lemma size_elems: "isArray v \<Longrightarrow> size_list size (elems v) < size v"
  by (cases v) auto

text \<open>
  \<^verbatim>\<open>getResponse\<close>, and the \<^verbatim>\<open>map\<close> over \<^verbatim>\<open>data.errors\<close> inside it. Reading
  \<^verbatim>\<open>err.path\<close> in the second branch raises a TypeError when \<^verbatim>\<open>err\<close> is \<^verbatim>\<open>null\<close>
  or \<^verbatim>\<open>undefined\<close>.
\<close>

function getResponse :: "(string \<rightharpoonup> nat) \<Rightarrow> jsval \<Rightarrow> jserror + response"
  and getResponses :: "(string \<rightharpoonup> nat) \<Rightarrow> jsval list \<Rightarrow> jserror + jsval list"
where
  "getResponse errors err =
     (case knownStatus errors err of
        Some c \<Rightarrow>
          (let data0 = (if truthy (getProp err ''data'') then getProp err ''data'' else JObj []);
               r = \<lparr> name = getProp err ''name'', data = data0, code = c,
                     path = getProp err ''path'', fn = Info, message = getProp err ''message'' \<rparr>
           in if getProp err ''name'' = JStr ''invalid'' \<and> isArray (getProp data0 ''errors'')
              then (case getResponses errors (elems (getProp data0 ''errors'')) of
                      Inl e \<Rightarrow> Inl e
                    | Inr es \<Rightarrow> Inr (r \<lparr> data := setProp data0 ''errors'' (JArr es) \<rparr>))
              else Inr r)
      | None \<Rightarrow>
          if nullish err then Inl TypeError
          else Inr \<lparr> name = JStr ''error'', data = JObj [], code = JNum 500,
                     path = getProp err ''path'', fn = Error,
                     message = JStr ''An error occurred.'' \<rparr>)"
| "getResponses errors [] = Inr []"
| "getResponses errors (e # es) =
     (case getResponse errors e of
        Inl x \<Rightarrow> Inl x
      | Inr response \<Rightarrow>
         (case getResponses errors es of
            Inl x \<Rightarrow> Inl x
          | Inr rs \<Rightarrow> Inr (subError response # rs)))"
  by pat_completeness auto
termination
proof (relation "measure (\<lambda>x. case x of Inl (_, v) \<Rightarrow> 2 * size v
                                 | Inr (_, vs) \<Rightarrow> 2 * size_list size vs + 1)")
  fix errors err c x
  assume x: "x = (if truthy (getProp err ''data'') then getProp err ''data'' else JObj [])"
    and "getProp err ''name'' = JStr ''invalid'' \<and> isArray (getProp x ''errors'')"
  then have a: "isArray (getProp x ''errors'')" by simp
  have "size x \<le> size err"
  proof (cases "truthy (getProp err ''data'')")
    case True
    then show ?thesis using x by (simp add: size_getProp)
  next
    case False
    then have "getProp x ''errors'' = JUndefined" using x by simp
    with a show ?thesis by simp
  qed
  moreover have "size_list size (elems (getProp x ''errors'')) < size (getProp x ''errors'')"
    using a by (rule size_elems)
  moreover have "size (getProp x ''errors'') \<le> size x" by (rule size_getProp)
  ultimately show "(Inr (errors, elems (getProp x ''errors'')), Inl (errors, err))
       \<in> measure (\<lambda>x. case x of Inl (_, v) \<Rightarrow> 2 * size v
                              | Inr (_, vs) \<Rightarrow> 2 * size_list size vs + 1)"
    by simp
qed auto

declare getResponse.simps [simp del]

text \<open>
  \<^verbatim>\<open>(error.stack || '').split('\n').slice(1).map(line => line.trim())\<close>; a truthy
  \<^verbatim>\<open>stack\<close> that is not a string has no \<^verbatim>\<open>split\<close> and the call raises a TypeError.
\<close>

definition stackLines :: "jsval \<Rightarrow> jserror + jsval" where
  "stackLines error0 =
     (case (if truthy (getProp error0 ''stack'') then getProp error0 ''stack'' else JStr []) of
        JStr s \<Rightarrow> Inr (JArr (map (\<lambda>line. JStr (trim line)) (drop 1 (split CHR 0x0A s))))
      | _ \<Rightarrow> Inl TypeError)"

text \<open>
  The catch block: \<^verbatim>\<open>e.message = 'Structured logging error: ' + e.message\<close>, then
  \<^verbatim>\<open>console.error(e)\<close>. Reading \<^verbatim>\<open>e.message\<close> raises a TypeError when what was thrown
  is \<^verbatim>\<open>null\<close> or \<^verbatim>\<open>undefined\<close>.
\<close>

definition reportLoggingError :: "jsval \<Rightarrow> jserror + effect list" where
  "reportLoggingError e =
     (if nullish e then Inl TypeError
      else Inr [ConsoleError (setProp e ''message''
             (JStr (''Structured logging error: '' @ toStr (getProp e ''message''))))])"

text \<open>The TypeError object the engine raises for the call of \<^verbatim>\<open>split\<close>; its wording is the engine's.\<close>

definition splitTypeError :: jsval where
  "splitTypeError =
     JObj [(''name'', JStr ''TypeError''), (''message'', JStr ''split is not a function'')]"

text \<open>
  \<^verbatim>\<open>logError\<close>: the effects of the \<^verbatim>\<open>try\<close> and its \<^verbatim>\<open>catch\<close>, or the TypeError that
  leaves the \<^verbatim>\<open>catch\<close>.
\<close>

definition logError :: "apos \<Rightarrow> response \<Rightarrow> jsval \<Rightarrow> jserror + effect list" where
  "logError ap response error0 =
     (let typeTrail = (if code response = JNum 500 then [] else ''-'' @ toStr (name response));
          msg = (if code response = JNum 500 then getProp error0 ''message''
                 else message response)
      in case stackLines error0 of
           Inl e \<Rightarrow> reportLoggingError splitTypeError
         | Inr stack \<Rightarrow>
            (let fields = JObj [(''name'', name response),
                               (''status'', code response),
                               (''stack'', stack),
                               (''cause'', getProp error0 ''cause''),
                               (''errorPath'', path response),
                               (''data'', data response)]
             in case self_logError ap (''api-error'' @ typeTrail) msg fields of
                  None \<Rightarrow> Inr [StructuredLog (''api-error'' @ typeTrail) msg fields]
                | Some e \<Rightarrow>
                   (case reportLoggingError e of
                      Inl x \<Rightarrow> Inl x
                    | Inr effs \<Rightarrow>
                        Inr (StructuredLog (''api-error'' @ typeTrail) msg fields # effs))))"

text \<open>The function mapped over an array of errors by \<^verbatim>\<open>routeSendError\<close>.\<close>

definition errorEntry :: "(string \<rightharpoonup> nat) \<Rightarrow> jsval \<Rightarrow> jserror + jsval" where
  "errorEntry errors err =
     (case getResponse errors err of
        Inl x \<Rightarrow> Inl x
      | Inr response \<Rightarrow>
          Inr (JObj [(''name'', name response), (''message'', message response),
                     (''path'', getProp err ''path''), (''code'', code response),
                     (''data'', data response)]))"

fun mapE :: "('a \<Rightarrow> jserror + 'b) \<Rightarrow> 'a list \<Rightarrow> jserror + 'b list" where
  "mapE f [] = Inr []"
| "mapE f (x # xs) =
     (case f x of
        Inl e \<Rightarrow> Inl e
      | Inr y \<Rightarrow> (case mapE f xs of Inl e \<Rightarrow> Inl e | Inr ys \<Rightarrow> Inr (y # ys)))"

text \<open>
  The first step of \<^verbatim>\<open>routeSendError\<close>: an array of errors is replaced by
  \<^verbatim>\<open>self.apos.error('invalid', { errors: ... })\<close>, anything else is kept.
\<close>

definition invalidError :: "apos \<Rightarrow> jsval \<Rightarrow> jserror + jsval" where
  "invalidError ap err =
     (case err of
        JArr errs \<Rightarrow>
          (case mapE (errorEntry (http_errors ap)) errs of
             Inl x \<Rightarrow> Inl x
           | Inr entries \<Rightarrow> Inr (error ap ''invalid'' (JObj [(''errors'', JArr entries)])))
      | _ \<Rightarrow> Inr err)"

definition routeSendError :: "apos \<Rightarrow> req option \<Rightarrow> jsval \<Rightarrow> jserror + effect list" where
  "routeSendError ap r err =
     (if \<not> (case r of None \<Rightarrow> False | Some q \<Rightarrow> res q \<noteq> None) then Inr [UtilError]
      else
        case invalidError ap err of
          Inl x \<Rightarrow> Inl x
        | Inr err1 \<Rightarrow>
           (case getResponse (http_errors ap) err1 of
              Inl x \<Rightarrow> Inl x
            | Inr response \<Rightarrow>
               (case logError ap response err1 of
                  Inl x \<Rightarrow> Inl x
                | Inr logged \<Rightarrow>
                    Inr (logged @
                         [ResStatus (code response),
                          ResSend (JObj [(''name'', name response), (''data'', data response),
                                         (''message'', message response)])]))))"

text \<open>The effects that write to the response.\<close>

fun isResponseEffect :: "effect \<Rightarrow> bool" where
  "isResponseEffect (ResHeader k v) = True"
| "isResponseEffect (ResStatus n) = True"
| "isResponseEffect (ResSend b) = True"
| "isResponseEffect e = False"

definition responseEffects :: "effect list \<Rightarrow> effect list" where
  "responseEffects effs = filter isResponseEffect effs"

section \<open>Route compiler\<close>

text \<open>
  A handler settles with a value or throws. A function declared by a module is given by what
  a call \<^verbatim>\<open>f(req, x)\<close> does; a call with \<^verbatim>\<open>req\<close> alone has \<^verbatim>\<open>undefined\<close> for
  \<^verbatim>\<open>x\<close>. What a declaration holds is a function, an array (middleware first, the route
  function last) or nothing.
\<close>

datatype outcome = Resolves jsval | Throws jsval

datatype route =
    Fn "req \<Rightarrow> jsval \<Rightarrow> outcome"
  | Arr "route list"
  | Undef

text \<open>
  The TypeError of a call of something that is not a function. Its message and its stack
  are the engine's; the object here stands for it without a stack.
\<close>

definition notAFunction :: jsval where
  "notAFunction =
     JObj [(''name'', JStr ''TypeError''), (''message'', JStr ''route is not a function'')]"

fun call :: "route \<Rightarrow> req \<Rightarrow> jsval \<Rightarrow> outcome" where
  "call (Fn f) r x = f r x"
| "call rt r x = Throws notAFunction"

text \<open>
  \<^verbatim>\<open>wrapId\<close>: on an array \<^verbatim>\<open>route.slice(0, route.length - 1).concat([ wrapId(last) ])\<close>,
  where the last entry of an empty array is \<^verbatim>\<open>undefined\<close>; otherwise the closure
  \<^verbatim>\<open>async req => route(req, req.params._id)\<close>.
\<close>

fun wrapId :: "route \<Rightarrow> route"
  and wrapLast :: "route list \<Rightarrow> route list"
where
  "wrapId (Arr rs) = Arr (wrapLast rs)"
| "wrapId (Fn f) = Fn (\<lambda>r x. call (Fn f) r (params__id r))"
| "wrapId Undef = Fn (\<lambda>r x. call Undef r (params__id r))"
| "wrapLast [] = [Fn (\<lambda>r x. call Undef r (params__id r))]"
| "wrapLast [rt] = [wrapId rt]"
| "wrapLast (rt # rt1 # rts) = rt # wrapLast (rt1 # rts)"

text \<open>
  A route of a section is declared as a function or an array, or as an object
  \<^verbatim>\<open>{ before, route }\<close>. A section maps a method to its routes by name; both are kept
  in enumeration order.
\<close>

datatype config = Direct route | WithConfig "string option" route

type_synonym routeSection = "(string \<times> (string \<times> config) list) list"

record restApiRoutes =
  getAll :: route
  getOne :: route
  post :: route
  put :: route
  patch :: route
  delete :: route

text \<open>What \<^verbatim>\<open>routeWrappers\<close> returns, and the closure over a route array pushed for an array.\<close>

datatype wrapped =
    Unwrapped route
  | ApiWrapped string route
  | RenderWrapped string route

datatype compiled = Single wrapped | Chain "wrapped list"

record compiled_route =
  before :: "string option"
  http_method :: string
  url :: string
  route :: compiled

record module =
  action :: string
  routes :: routeSection
  renderRoutes :: routeSection
  apiRoutes :: routeSection
  restApiRoutes :: restApiRoutes
  self_routes :: "compiled_route list"

datatype sectionName = Routes | RenderRoutes | ApiRoutes

fun sectionOf :: "sectionName \<Rightarrow> module \<Rightarrow> routeSection" where
  "sectionOf Routes self = routes self"
| "sectionOf RenderRoutes self = renderRoutes self"
| "sectionOf ApiRoutes self = apiRoutes self"

fun routeWrappers :: "sectionName \<Rightarrow> (string \<Rightarrow> route \<Rightarrow> wrapped) option" where
  "routeWrappers Routes = None"
| "routeWrappers RenderRoutes = Some RenderWrapped"
| "routeWrappers ApiRoutes = Some ApiWrapped"

text \<open>
  \<^verbatim>\<open>self.apiRoutes[m] = self.apiRoutes[m] || {}; self.apiRoutes[m][k] = v\<close>.
\<close>

definition setApiRoute :: "string \<Rightarrow> string \<Rightarrow> route \<Rightarrow> routeSection \<Rightarrow> routeSection" where
  "setApiRoute m k v sec =
     AList.update m
       (AList.update k (Direct v) (case map_of sec m of None \<Rightarrow> [] | Some rts \<Rightarrow> rts)) sec"

definition compileRestApiRoutesToApiRoutes :: "module \<Rightarrow> module" where
  "compileRestApiRoutesToApiRoutes self =
     (let rest = restApiRoutes self;
          a0 = apiRoutes self;
          a1 = (if getAll rest \<noteq> Undef then setApiRoute ''get'' [] (getAll rest) a0 else a0);
          a2 = (if getOne rest \<noteq> Undef
                then setApiRoute ''get'' '':_id'' (wrapId (getOne rest)) a1 else a1);
          a3 = (if delete rest \<noteq> Undef
                then setApiRoute ''delete'' '':_id'' (wrapId (delete rest)) a2 else a2);
          a4 = (if patch rest \<noteq> Undef
                then setApiRoute ''patch'' '':_id'' (wrapId (patch rest)) a3 else a3);
          a5 = (if put rest \<noteq> Undef
                then setApiRoute ''put'' '':_id'' (wrapId (put rest)) a4 else a4);
          a6 = (if post rest \<noteq> Undef then setApiRoute ''post'' [] (post rest) a5 else a5)
      in self \<lparr> apiRoutes := a6 \<rparr>)"

text \<open>
  The body of the inner loop of \<^verbatim>\<open>compileSectionRoutes\<close>: the route pushed for one
  declaration. For an array the wrapped function replaces its last entry; an empty array
  has no last entry and stays empty.
\<close>

definition compileRoute ::
  "(string \<Rightarrow> string) \<Rightarrow> module \<Rightarrow> sectionName \<Rightarrow> string \<Rightarrow> string \<Rightarrow> config \<Rightarrow> compiled_route" where
  "compileRoute cssName self section meth nm config =
     (let route0 = (case config of WithConfig b rt \<Rightarrow> rt | Direct rt \<Rightarrow> rt);
          before0 = (case config of WithConfig b rt \<Rightarrow> b | Direct rt \<Rightarrow> None);
          url0 = getRouteUrl cssName (action self) nm
      in case route0 of
           Arr rs \<Rightarrow>
             \<lparr> before = before0, http_method = meth, url = url0,
               route = Chain (case routeWrappers section of
                                None \<Rightarrow> map Unwrapped rs
                              | Some w \<Rightarrow>
                                  if rs = [] then []
                                  else map Unwrapped (butlast rs) @ [w nm (last rs)]) \<rparr>
         | _ \<Rightarrow>
             \<lparr> before = before0, http_method = meth, url = url0,
               route = Single (case routeWrappers section of
                                 None \<Rightarrow> Unwrapped route0
                               | Some w \<Rightarrow> w nm route0) \<rparr>)"

definition compileSectionRoutes :: "(string \<Rightarrow> string) \<Rightarrow> sectionName \<Rightarrow> module \<Rightarrow> module" where
  "compileSectionRoutes cssName section self =
     fold (\<lambda>(meth, rts) s.
             fold (\<lambda>(nm, config) s1.
                     s1 \<lparr> self_routes :=
                            self_routes s1 @ [compileRoute cssName s1 section meth nm config] \<rparr>)
                  rts s)
          (sectionOf section self) self"

definition compileAllRoutes :: "(string \<Rightarrow> string) \<Rightarrow> module \<Rightarrow> module" where
  "compileAllRoutes cssName self =
     compileSectionRoutes cssName ApiRoutes
       (compileSectionRoutes cssName RenderRoutes
          (compileSectionRoutes cssName Routes
             (compileRestApiRoutesToApiRoutes self)))"

section \<open>Response wrapper\<close>

text \<open>
  The function \<^verbatim>\<open>routeWrappers.apiRoutes(name, fn)\<close> returns, applied to a request whose
  response is \<^verbatim>\<open>req.res\<close>.
\<close>

definition apiRoutesWrapper :: "apos \<Rightarrow> string \<Rightarrow> route \<Rightarrow> req \<Rightarrow> jserror + effect list" where
  "apiRoutesWrapper ap nm fn0 r =
     (case call fn0 r JUndefined of
        Resolves result \<Rightarrow>
          Inr ((if req_method r = ''GET'' \<and> truthy (user r)
                then [ResHeader ''Cache-Control'' ''no-store''] else []) @
               [ResStatus (JNum 200), ResSend result])
      | Throws err \<Rightarrow> routeSendError ap (Some r) err)"

section \<open>Notions used to state the properties\<close>


text \<open>\<^verbatim>\<open>section[m][k]\<close>, and the routes one section contributes, in the order of the section.\<close>

definition routeAt :: "routeSection \<Rightarrow> string \<Rightarrow> string \<Rightarrow> config option" where
  "routeAt sec m k = (case map_of sec m of None \<Rightarrow> None | Some rts \<Rightarrow> map_of rts k)"

definition sectionRoutes :: "(string \<Rightarrow> string) \<Rightarrow> module \<Rightarrow> sectionName \<Rightarrow> compiled_route list" where
  "sectionRoutes cssName self section =
     concat (map (\<lambda>(meth, rts). map (\<lambda>(nm, config). compileRoute cssName self section meth nm config) rts)
                 (sectionOf section self))"

section \<open>Example requests\<close>

definition anonReq :: req where
  "anonReq = \<lparr> user = JUndefined, req_method = ''GET'', res = Some \<lparr> statusCode = 200 \<rparr>,
              session = [(''cookie'', JObj [(''path'', JStr ''/'')])],
              if_none_match = None, data_piece = None, data_page = None,
              params__id = JUndefined \<rparr>"


definition etagDoc :: doc where
  "etagDoc = \<lparr> cacheInvalidatedAt = Some 1 \<rparr>"

section \<open>Example collaborators and errors\<close>

definition ap0 :: apos where
  "ap0 = \<lparr> http_errors = [''invalid'' \<mapsto> 400, ''required'' \<mapsto> 400, ''notfound'' \<mapsto> 404],
            error = (\<lambda>nm d. JObj [(''name'', JStr nm), (''message'', JStr nm), (''data'', d)]),
            self_logError = (\<lambda>key msg fields. None) \<rparr>"

definition boom :: jsval where
  "boom = JObj [(''name'', JStr ''boom''), (''message'', JStr ''secret''),
                (''stack'', JStr (''Error: secret'' @ [CHR 0x0A] @ ''    at f (a.js:1:1)''))]"

definition ap1 :: apos where
  "ap1 = ap0 \<lparr> self_logError :=
                 (\<lambda>key msg fields. Some (JObj [(''message'', JStr ''disk full'')])) \<rparr>"

definition apNull :: apos where
  "apNull = ap0 \<lparr> self_logError := (\<lambda>key msg fields. Some JNull) \<rparr>"

definition constructorError :: jsval where
  "constructorError = JObj [(''name'', JStr ''constructor''), (''message'', JStr ''secret'')]"

definition notfound :: jsval where
  "notfound = JObj [(''name'', JStr ''notfound''), (''message'', JStr ''No such page''),
                    (''stack'', JStr (''notfound: No such page'' @ [CHR 0x0A] @ ''    at g (b.js:2:3)  ''))]"



definition restModule :: module where
  "restModule = \<lparr> action = ''/api/v1/test'',
                   routes = [(''post'', [(''saveArea'', Direct (Fn (\<lambda>r x. Resolves JNull)))])],
                   renderRoutes = [(''get'', [(''preview'', Direct (Fn (\<lambda>r x. Resolves (JObj []))))])],
                   apiRoutes = [(''get'', [(''count'', Direct (Fn (\<lambda>r x. Resolves (JNum 3))))])],
                   restApiRoutes = \<lparr> getAll = Fn (\<lambda>r x. Resolves (JArr [])),
                                      getOne = Arr [Fn (\<lambda>r x. Resolves JUndefined), Fn (\<lambda>r x. Resolves x)],
                                      post = Undef, put = Undef, patch = Undef, delete = Undef \<rparr>,
                   self_routes = [] \<rparr>"

section \<open>Properties of the cache controller\<close>

text \<open>
  C8. For a request with a response attached, \<^verbatim>\<open>isSafeToCache\<close> returns false when
  \<^verbatim>\<open>req.user\<close> is present or the pending status is at least 400; otherwise it returns
  true exactly when every session entry is the \<^verbatim>\<open>cookie\<close> key, or is \<^verbatim>\<open>flash\<close> or
  \<^verbatim>\<open>passport\<close> holding an empty value; in particular it then returns true when the
  session holds only the \<^verbatim>\<open>cookie\<close> key.
\<close>

theorem isSafeToCache_spec:
  assumes "res r = Some rs"
  shows "(truthy (user r) \<or> statusCode rs \<ge> 400 \<longrightarrow> isSafeToCache r = Inr False) \<and>
         (\<not> truthy (user r) \<and> statusCode rs < 400 \<longrightarrow>
            isSafeToCache r = Inr (\<forall>(key, val) \<in> set (session r).
               key = ''cookie'' \<or> ((key = ''flash'' \<or> key = ''passport'') \<and> isEmpty val))) \<and>
         (\<not> truthy (user r) \<and> statusCode rs < 400 \<and> fst ` set (session r) \<subseteq> {''cookie''} \<longrightarrow>
            isSafeToCache r = Inr True)"
  using assms by (auto simp: isSafeToCache_def list_all_iff)

theorem isSafeToCache_spec_witness:
  "isSafeToCache anonReq = Inr True \<and>
   isSafeToCache (anonReq \<lparr> user := JObj [(''_id'', JStr ''u1'')] \<rparr>) = Inr False \<and>
   isSafeToCache (anonReq \<lparr> res := Some \<lparr> statusCode = 404 \<rparr> \<rparr>) = Inr False \<and>
   isSafeToCache (anonReq \<lparr> session := [(''cookie'', JObj []), (''flash'', JObj []),
                                        (''cart'', JArr [])] \<rparr>) = Inr False"
  using isSafeToCache_spec [of anonReq "\<lparr> statusCode = 200 \<rparr>"]
    isSafeToCache_spec [of "anonReq \<lparr> user := JObj [(''_id'', JStr ''u1'')] \<rparr>"
                           "\<lparr> statusCode = 200 \<rparr>"]
    isSafeToCache_spec [of "anonReq \<lparr> res := Some \<lparr> statusCode = 404 \<rparr> \<rparr>"
                           "\<lparr> statusCode = 404 \<rparr>"]
    isSafeToCache_spec [of "anonReq \<lparr> session := [(''cookie'', JObj []), (''flash'', JObj []),
                                                   (''cart'', JArr [])] \<rparr>"
                           "\<lparr> statusCode = 200 \<rparr>"]
  by (simp add: anonReq_def)


lemma digitVal_digit: "d < 10 \<Longrightarrow> digitVal (digit d) = Some d"
proof -
  assume "d < 10"
  then have "d \<in> {0,1,2,3,4,5,6,7,8,9}" by auto
  then show ?thesis by (auto simp: digitVal_def digit_def)
qed

lemma parseNat_append:
  "parseNat acc (xs @ ys) = (case parseNat acc xs of None \<Rightarrow> None | Some a \<Rightarrow> parseNat a ys)"
  by (induction xs arbitrary: acc) (auto split: option.splits)

lemma parseNat_showNat: "parseNat 0 (showNat n) = Some n"
proof (induction n rule: showNat.induct)
  case (1 n)
  show ?case
  proof (cases "n < 10")
    case True
    then show ?thesis by (subst showNat.simps) (simp add: digitVal_digit)
  next
    case False
    with 1 have "parseNat 0 (showNat (n div 10)) = Some (n div 10)" by simp
    with False show ?thesis
      by (subst showNat.simps) (simp add: parseNat_append digitVal_digit)
  qed
qed

lemma showNat_digits: "showNat n \<noteq> [] \<and> (\<forall>c \<in> set (showNat n). isDigit c)"
proof (induction n rule: showNat.induct)
  case (1 n)
  show ?case
  proof (cases "n < 10")
    case True
    then show ?thesis by (subst (1 2) showNat.simps) (simp add: isDigit_def digitVal_digit)
  next
    case False
    with 1 show ?thesis
      by (subst (1 2) showNat.simps) (simp add: isDigit_def digitVal_digit)
  qed
qed

lemma isDigit_cases:
  "isDigit c \<longleftrightarrow> c \<in> set ''0123456789''"
  by (auto simp: isDigit_def digitVal_def)

lemma trim_id: "s \<noteq> [] \<Longrightarrow> \<not> isSpace (hd s) \<Longrightarrow> \<not> isSpace (last s) \<Longrightarrow> trim s = s"
proof -
  assume a: "s \<noteq> []" "\<not> isSpace (hd s)" "\<not> isSpace (last s)"
  then have "dropWhile isSpace s = s" by (cases s) auto
  moreover from a have "dropWhile isSpace (rev s) = rev s"
    by (cases "rev s") (auto simp: hd_rev)
  ultimately show ?thesis by (simp add: trim_def)
qed

lemma unsignedDecimal_digits:
  assumes "s \<noteq> []" and "\<forall>c \<in> set s. isDigit c" and "parseNat 0 s = Some n"
  shows "unsignedDecimal s = Some (real n)"
proof -
  from assms(2) have tw: "takeWhile isDigit s = s" and dw: "dropWhile isDigit s = []"
    by simp_all
  show ?thesis
    unfolding unsignedDecimal_def Let_def tw dw
    using assms(1,3) by (simp add: exponentPart_def scale10_def)
qed

lemma decimalLiteral_showNat: "decimalLiteral (showNat n) = Finite (real n)"
proof -
  have d: "showNat n \<noteq> []" "\<forall>c \<in> set (showNat n). isDigit c"
    using showNat_digits by blast+
  have "showNat n \<noteq> ''Infinity''"
  proof
    assume "showNat n = ''Infinity''"
    with d(2) have "isDigit CHR ''I''" by simp
    then show False by (simp add: isDigit_cases)
  qed
  with unsignedDecimal_digits [OF d parseNat_showNat] show ?thesis
    by (simp add: decimalLiteral_def)
qed

lemma isDigit_not_space: "isDigit c \<Longrightarrow> \<not> isSpace c"
  unfolding isDigit_cases isSpace_def by auto

lemma isDigit_not_letter:
  "isDigit c \<Longrightarrow> c \<notin> set ''xXoObB+-''"
  unfolding isDigit_cases by auto

lemma stringToNumber_digits:
  assumes "s \<noteq> []" and "\<forall>c \<in> set s. isDigit c"
  shows "stringToNumber s = decimalLiteral s"
proof -
  from assms obtain c cs where s: "s = c # cs" by (cases s) auto
  with assms have c: "isDigit c" and cs: "\<forall>x \<in> set cs. isDigit x" by auto
  have "isDigit (last s)" using assms by simp
  then have t: "trim s = s"
    using assms(1) c s by (intro trim_id) (simp_all add: isDigit_not_space)
  have c1: "c \<noteq> CHR ''+''" "c \<noteq> CHR ''-''"
    using isDigit_not_letter [OF c] by auto
  have p2: "take 2 s \<noteq> ''0x'' \<and> take 2 s \<noteq> ''0X'' \<and> take 2 s \<noteq> ''0o'' \<and>
    take 2 s \<noteq> ''0O'' \<and> take 2 s \<noteq> ''0b'' \<and> take 2 s \<noteq> ''0B''"
  proof (cases cs)
    case Nil
    with s show ?thesis by simp
  next
    case (Cons y ys)
    with cs have "isDigit y" by simp
    from isDigit_not_letter [OF this] s Cons show ?thesis by auto
  qed
  show ?thesis
    unfolding stringToNumber_def Let_def t
    using assms(1) p2 c1 s by auto
qed

lemma stringToNumber_minus_digits:
  assumes "s \<noteq> []" and "\<forall>c \<in> set s. isDigit c"
  shows "stringToNumber (CHR ''-'' # s) = negate (decimalLiteral s)"
proof -
  from assms obtain c cs where s: "s = c # cs" by (cases s) auto
  with assms have c: "isDigit c" by auto
  have "isDigit (last s)" using assms by simp
  then have "\<not> isSpace (last (CHR ''-'' # s))"
    using assms(1) by (simp add: isDigit_not_space)
  moreover have "\<not> isSpace (hd (CHR ''-'' # s))" by (simp add: isSpace_def)
  ultimately have t: "trim (CHR ''-'' # s) = CHR ''-'' # s"
    by (intro trim_id) simp_all
  show ?thesis
    unfolding stringToNumber_def Let_def t
    using s by simp
qed

lemma toNumber_showInt: "toNumber (Some (showInt t)) = Finite (real_of_int t)"
proof (cases "t < 0")
  case False
  then show ?thesis
    using showNat_digits [of "nat t"]
    by (simp add: showInt_def stringToNumber_digits decimalLiteral_showNat)
next
  case True
  then show ?thesis
    using showNat_digits [of "nat (- t)"]
    by (simp add: showInt_def stringToNumber_minus_digits decimalLiteral_showNat)
qed

text \<open>
  C10. Without a document \<^verbatim>\<open>generateETagParts\<close> falls back to \<^verbatim>\<open>req.data.piece\<close> and
  then to \<^verbatim>\<open>req.data.page\<close>; it returns \<^verbatim>\<open>null\<close> exactly when the chosen context is
  absent or has no \<^verbatim>\<open>cacheInvalidatedAt\<close>, and otherwise the two-element list of the
  release id and the decimal string of the invalidation time in milliseconds.
\<close>

theorem generateETagParts_spec:
  "generateETagParts rid r None =
     (case data_piece r of
        Some p \<Rightarrow> generateETagParts rid r (Some p)
      | None \<Rightarrow> (case data_page r of
                   Some pg \<Rightarrow> generateETagParts rid r (Some pg)
                 | None \<Rightarrow> None)) \<and>
   generateETagParts rid r (Some c) =
     (case cacheInvalidatedAt c of None \<Rightarrow> None | Some t \<Rightarrow> Some [rid, showInt t]) \<and>
   (generateETagParts rid r d = None \<longleftrightarrow>
      (case (case d of Some x \<Rightarrow> Some x
             | None \<Rightarrow> (case data_piece r of Some p \<Rightarrow> Some p | None \<Rightarrow> data_page r)) of
         None \<Rightarrow> True
       | Some x \<Rightarrow> cacheInvalidatedAt x = None))"
  by (simp add: generateETagParts_def split: option.splits)

lemma showNat_small: "n < 10 \<Longrightarrow> showNat n = [digit n]"
  by (subst showNat.simps) simp







text \<open>
  A tag without a third part has no age: the difference is NaN, the comparison with
  \<^verbatim>\<open>maxAge\<close> is false, and a matching two-part tag is a hit at any time.
\<close>

lemma checkETag_two_part_tag:
  "checkETag ''r'' 999999 (anonReq \<lparr> if_none_match := Some ''r:1'' \<rparr>) (Some etagDoc) 10 =
     Inr (True, [ResHeader ''ETag'' ''r:1''])"
  by (simp add: checkETag_def generateETagParts_def isSafeToCache_def setETag_def
      etagDoc_def anonReq_def showInt_def showNat_small digit_def nth_opt_def clientETagParts_def)

section \<open>Properties of the route URLs\<close>

text \<open>
  C4. \<^verbatim>\<open>getRouteUrl\<close> returns a name that starts with a slash as it is; for another name
  that contains a slash, a colon or a star it returns the action prefix, a slash and the
  name; otherwise the action prefix, a slash and the hyphenated name, so that
  \<^verbatim>\<open>saveArea\<close> under \<^verbatim>\<open>/api/v1/test\<close> gives \<^verbatim>\<open>/api/v1/test/save-area\<close> when
  \<^verbatim>\<open>cssName\<close> hyphenates \<^verbatim>\<open>saveArea\<close> to \<^verbatim>\<open>save-area\<close>.
\<close>

theorem getRouteUrl_spec:
  "(\<forall>rest. nm = CHR ''/'' # rest \<longrightarrow> getRouteUrl cssName act nm = nm) \<and>
   (take 1 nm \<noteq> ''/'' \<and> (\<exists>c \<in> set nm. c = CHR ''/'' \<or> c = CHR '':'' \<or> c = CHR ''*'') \<longrightarrow>
      getRouteUrl cssName act nm = act @ ''/'' @ nm) \<and>
   (take 1 nm \<noteq> ''/'' \<and> (\<forall>c \<in> set nm. c \<noteq> CHR ''/'' \<and> c \<noteq> CHR '':'' \<and> c \<noteq> CHR ''*'') \<longrightarrow>
      getRouteUrl cssName act nm = act @ ''/'' @ cssName nm) \<and>
   (cssName ''saveArea'' = ''save-area'' \<longrightarrow>
      getRouteUrl cssName ''/api/v1/test'' ''saveArea'' = ''/api/v1/test/save-area'')"
  by (auto simp: getRouteUrl_def list_ex_iff)

theorem getRouteUrl_spec_witness:
  "getRouteUrl hyphenate ''/api/v1/test'' ''/custom'' = ''/custom'' \<and>
   getRouteUrl hyphenate ''/api/v1/test'' ''foo/:id'' = ''/api/v1/test/foo/:id'' \<and>
   getRouteUrl hyphenate ''/api/v1/test'' ''saveArea'' = ''/api/v1/test/'' @ hyphenate ''saveArea'' \<and>
   hyphenate ''saveArea'' = ''save-area'' \<and>
   getRouteUrl hyphenate ''/api/v1/test'' ''saveArea'' = ''/api/v1/test/save-area''"
  using getRouteUrl_spec [of "''/custom''" hyphenate "''/api/v1/test''"]
    getRouteUrl_spec [of "''foo/:id''" hyphenate "''/api/v1/test''"]
    getRouteUrl_spec [of "''saveArea''" hyphenate "''/api/v1/test''"]
  by (simp add: lowerOf_def)

section \<open>Properties of the error normalizer\<close>

lemma getResponse_unknown:
  "knownStatus errors err = None \<Longrightarrow> \<not> nullish err \<Longrightarrow>
   getResponse errors err =
     Inr \<lparr> name = JStr ''error'', data = JObj [], code = JNum 500, path = getProp err ''path'',
           fn = Error, message = JStr ''An error occurred.'' \<rparr>"
  by (simp add: getResponse.simps)

lemma responseEffects_reportLoggingError:
  "reportLoggingError e = Inr effs \<Longrightarrow> responseEffects effs = []"
  by (auto simp: reportLoggingError_def responseEffects_def split: if_splits)

lemma responseEffects_logError:
  "logError ap response err = Inr logged \<Longrightarrow> responseEffects logged = []"
  by (auto simp: logError_def Let_def responseEffects_def
      dest!: responseEffects_reportLoggingError [unfolded responseEffects_def]
      split: sum.splits option.splits)

lemma invalidError_single: "\<not> isArray err \<Longrightarrow> invalidError ap err = Inr err"
  by (cases err) (simp_all add: invalidError_def)

text \<open>When what the logger throws is never \<^verbatim>\<open>null\<close> or \<^verbatim>\<open>undefined\<close>, logging returns.\<close>

lemma logError_returns:
  assumes "\<forall>key msg fields e. self_logError ap key msg fields = Some e \<longrightarrow> \<not> nullish e"
  shows "\<exists>logged. logError ap response err = Inr logged"
proof (cases "stackLines err")
  case (Inl a)
  then show ?thesis
    by (simp add: logError_def Let_def reportLoggingError_def splitTypeError_def)
next
  case (Inr stack)
  then show ?thesis
    using assms
    by (auto simp: logError_def Let_def reportLoggingError_def split: option.splits)
qed

text \<open>
  An error whose name the lookup does not find, sent with a logger that throws nothing
  that is \<^verbatim>\<open>null\<close> or \<^verbatim>\<open>undefined\<close>, gets the status 500 and the generic body.
\<close>

lemma routeSendError_not_found:
  assumes "res q \<noteq> None" and "\<not> nullish err" and "\<not> isArray err"
    and "lookupError (http_errors ap) (toStr (getProp err ''name'')) = JUndefined"
    and "\<forall>key msg fields e. self_logError ap key msg fields = Some e \<longrightarrow> \<not> nullish e"
  shows "\<exists>effs. routeSendError ap (Some q) err = Inr effs \<and>
           responseEffects effs =
             [ResStatus (JNum 500),
              ResSend (JObj [(''name'', JStr ''error''), (''data'', JObj []),
                             (''message'', JStr ''An error occurred.'')])]"
proof -
  from assms(4) have "knownStatus (http_errors ap) err = None"
    by (simp add: knownStatus_def)
  with assms(2) have g: "getResponse (http_errors ap) err =
     Inr \<lparr> name = JStr ''error'', data = JObj [], code = JNum 500, path = getProp err ''path'',
           fn = Error, message = JStr ''An error occurred.'' \<rparr>"
    by (simp add: getResponse_unknown)
  from logError_returns [OF assms(5)] obtain logged where
    l: "logError ap \<lparr> name = JStr ''error'', data = JObj [], code = JNum 500,
                      path = getProp err ''path'', fn = Error,
                      message = JStr ''An error occurred.'' \<rparr> err = Inr logged"
    by blast
  show ?thesis
    using assms(1) invalidError_single [OF assms(3), of ap] g l
      responseEffects_logError [OF l]
    by (simp add: routeSendError_def responseEffects_def)
qed

text \<open>
  C1. An error whose name has no entry in the taxonomy is to get the status 500 and the
  generic body, its own message never shown. The code does not do so for an error named
  after a member that the taxonomy, a plain object, inherits: the taxonomy has no entry \<^verbatim>\<open>constructor\<close>, the lookup finds the
  inherited function, and the error is treated as known. The status set is that function
  and the body has the name and the message of the error.
\<close>

theorem routeSendError_inherited_name:
  "http_errors ap0 (toStr (getProp constructorError ''name'')) = None \<and>
   routeSendError ap0 (Some anonReq) constructorError =
     Inr [StructuredLog ''api-error-constructor'' (JStr ''secret'')
            (JObj [(''name'', JStr ''constructor''), (''status'', JProto ''constructor''),
                   (''stack'', JArr []), (''cause'', JUndefined),
                   (''errorPath'', JUndefined), (''data'', JObj [])]),
          ResStatus (JProto ''constructor''),
          ResSend (JObj [(''name'', JStr ''constructor''), (''data'', JObj []),
                         (''message'', JStr ''secret'')])]"
  by (simp add: routeSendError_def invalidError_def getResponse.simps knownStatus_def
      lookupError_def objectPrototype_def logError_def stackLines_def Let_def
      constructorError_def ap0_def anonReq_def)

text \<open>
  What holds of the logging of an error that normalizes, with a logger that throws nothing
  that is \<^verbatim>\<open>null\<close> or \<^verbatim>\<open>undefined\<close>: logging comes before the status and the body and
  writes nothing to the response. When the \<^verbatim>\<open>stack\<close> of the error is a string or absent,
  the structured logger is called with the key \<^verbatim>\<open>api-error\<close> for the status 500 and
  \<^verbatim>\<open>api-error-<name>\<close> otherwise, and with the resolved name, the status, the lines of the
  stack after the first, the cause, the path and the data; what the logger throws is
  written to the console. When the stack cannot be split the error of that is written to
  the console instead.
\<close>

lemma routeSendError_logging:
  assumes "res q \<noteq> None"
    and "invalidError ap err = Inr err1"
    and "getResponse (http_errors ap) err1 = Inr response"
    and "\<forall>key msg fields e. self_logError ap key msg fields = Some e \<longrightarrow> \<not> nullish e"
  shows "\<exists>logged.
           routeSendError ap (Some q) err =
             Inr (logged @
                  [ResStatus (code response),
                   ResSend (JObj [(''name'', name response), (''data'', data response),
                                  (''message'', message response)])]) \<and>
           responseEffects logged = [] \<and>
           (getProp err1 ''stack'' = JStr s \<or> (\<not> truthy (getProp err1 ''stack'') \<and> s = []) \<longrightarrow>
              (let key = (if code response = JNum 500 then ''api-error''
                          else ''api-error-'' @ toStr (name response));
                   msg = (if code response = JNum 500 then getProp err1 ''message''
                          else message response);
                   fields = JObj [(''name'', name response),
                                  (''status'', code response),
                                  (''stack'', JArr (map (\<lambda>line. JStr (trim line))
                                                       (drop 1 (split CHR 0x0A s)))),
                                  (''cause'', getProp err1 ''cause''),
                                  (''errorPath'', path response),
                                  (''data'', data response)]
               in logged =
                    StructuredLog key msg fields #
                    (case self_logError ap key msg fields of
                       None \<Rightarrow> []
                     | Some e \<Rightarrow>
                         [ConsoleError (setProp e ''message''
                            (JStr (''Structured logging error: '' @
                                   toStr (getProp e ''message''))))]))) \<and>
           (stackLines err1 = Inl TypeError \<longrightarrow> (\<exists>e. logged = [ConsoleError e]))"
proof -
  from logError_returns [OF assms(4)] obtain logged where
    l: "logError ap response err1 = Inr logged" by blast
  have a: "routeSendError ap (Some q) err =
             Inr (logged @
                  [ResStatus (code response),
                   ResSend (JObj [(''name'', name response), (''data'', data response),
                                  (''message'', message response)])])"
    using assms(1-3) l by (simp add: routeSendError_def)
  have b: "responseEffects logged = []" by (rule responseEffects_logError [OF l])
  have c: "let key = (if code response = JNum 500 then ''api-error''
                          else ''api-error-'' @ toStr (name response));
                   msg = (if code response = JNum 500 then getProp err1 ''message''
                          else message response);
                   fields = JObj [(''name'', name response),
                                  (''status'', code response),
                                  (''stack'', JArr (map (\<lambda>line. JStr (trim line))
                                                       (drop 1 (split CHR 0x0A s)))),
                                  (''cause'', getProp err1 ''cause''),
                                  (''errorPath'', path response),
                                  (''data'', data response)]
               in logged =
                    StructuredLog key msg fields #
                    (case self_logError ap key msg fields of
                       None \<Rightarrow> []
                     | Some e \<Rightarrow>
                         [ConsoleError (setProp e ''message''
                            (JStr (''Structured logging error: '' @
                                   toStr (getProp e ''message''))))])"
    if "getProp err1 ''stack'' = JStr s \<or> (\<not> truthy (getProp err1 ''stack'') \<and> s = [])"
  proof -
    from that have st: "stackLines err1 =
        Inr (JArr (map (\<lambda>line. JStr (trim line)) (drop 1 (split CHR 0x0A s))))"
      by (cases "s = []") (auto simp: stackLines_def)
    with l assms(4) show ?thesis
      by (auto simp: logError_def reportLoggingError_def Let_def split: option.splits if_splits)
  qed
  have d: "\<exists>e. logged = [ConsoleError e]" if "stackLines err1 = Inl TypeError"
    using that l
    by (auto simp: logError_def reportLoggingError_def splitTypeError_def Let_def)
  from a b c d show ?thesis by blast
qed

text \<open>
  C7. Every error is to be logged before the response is sent, and a failure of the
  logger is never to stop the response. The code does not do so in two places. For an error that is \<^verbatim>\<open>undefined\<close> or \<^verbatim>\<open>null\<close>,
  as a handler that rejects without a reason gives it, \<^verbatim>\<open>getResponse\<close> raises a TypeError
  at \<^verbatim>\<open>err.path\<close>: nothing is logged and nothing is sent. And when the logger throws
  \<^verbatim>\<open>null\<close>, the catch block raises a TypeError at \<^verbatim>\<open>e.message\<close>: the response is not
  sent.
\<close>

theorem routeSendError_throws:
  "routeSendError ap0 (Some anonReq) JUndefined = Inl TypeError \<and>
   routeSendError ap0 (Some anonReq) JNull = Inl TypeError \<and>
   apiRoutesWrapper ap0 ''list'' (Fn (\<lambda>r x. Throws JUndefined)) anonReq = Inl TypeError \<and>
   routeSendError apNull (Some anonReq) notfound = Inl TypeError"
  by (simp add: apiRoutesWrapper_def routeSendError_def invalidError_def getResponse.simps
      knownStatus_def lookupError_def objectPrototype_def logError_def stackLines_def
      reportLoggingError_def Let_def notfound_def apNull_def ap0_def anonReq_def)

section \<open>Properties of the response wrapper\<close>

text \<open>
  C6. When the handler resolves, the function returned by \<^verbatim>\<open>routeWrappers.apiRoutes\<close>
  sets the status 200 and sends the resolved value, after setting \<^verbatim>\<open>Cache-Control\<close> to
  \<^verbatim>\<open>no-store\<close> when the method is GET and \<^verbatim>\<open>req.user\<close> is present; when the handler
  throws, it does what \<^verbatim>\<open>routeSendError\<close> does with the error.
\<close>

theorem apiRoutesWrapper_spec:
  "(call fn0 r JUndefined = Resolves v \<and> req_method r = ''GET'' \<and> truthy (user r) \<longrightarrow>
      apiRoutesWrapper ap nm fn0 r =
        Inr [ResHeader ''Cache-Control'' ''no-store'', ResStatus (JNum 200), ResSend v]) \<and>
   (call fn0 r JUndefined = Resolves v \<and> \<not> (req_method r = ''GET'' \<and> truthy (user r)) \<longrightarrow>
      apiRoutesWrapper ap nm fn0 r = Inr [ResStatus (JNum 200), ResSend v]) \<and>
   (call fn0 r JUndefined = Throws e \<longrightarrow>
      apiRoutesWrapper ap nm fn0 r = routeSendError ap (Some r) e)"
  by (simp add: apiRoutesWrapper_def)

theorem apiRoutesWrapper_spec_witness:
  "apiRoutesWrapper ap0 ''list'' (Fn (\<lambda>r x. Resolves (JStr ''ok'')))
     (anonReq \<lparr> user := JObj [(''_id'', JStr ''u1'')] \<rparr>) =
     Inr [ResHeader ''Cache-Control'' ''no-store'', ResStatus (JNum 200), ResSend (JStr ''ok'')] \<and>
   apiRoutesWrapper ap0 ''list'' (Fn (\<lambda>r x. Resolves (JStr ''ok''))) anonReq =
     Inr [ResStatus (JNum 200), ResSend (JStr ''ok'')] \<and>
   apiRoutesWrapper ap0 ''list'' (Fn (\<lambda>r x. Throws boom)) anonReq =
     routeSendError ap0 (Some anonReq) boom"
  using apiRoutesWrapper_spec [of "Fn (\<lambda>r x. Resolves (JStr ''ok''))"
          "anonReq \<lparr> user := JObj [(''_id'', JStr ''u1'')] \<rparr>" "JStr ''ok''" ap0 "''list''" boom]
    apiRoutesWrapper_spec [of "Fn (\<lambda>r x. Resolves (JStr ''ok''))" anonReq "JStr ''ok''" ap0
          "''list''" boom]
    apiRoutesWrapper_spec [of "Fn (\<lambda>r x. Throws boom)" anonReq "JStr ''ok''" ap0 "''list''" boom]
  by (simp add: anonReq_def)

section \<open>Arrays of errors\<close>
















text \<open>
  What the test of \<^verbatim>\<open>getResponse\<close> gives, read on the taxonomy: a status for a truthy
  error with a truthy name for which the taxonomy has a status other than 0, an inherited
  member for a name the taxonomy has no entry for and every plain object inherits, and
  nothing otherwise.
\<close>

lemma knownStatus_cases:
  "knownStatus errors e =
     (if \<not> truthy e \<or> \<not> truthy (getProp e ''name'') then None
      else if toStr (getProp e ''name'') = ''__proto__'' then Some (JProto ''__proto__'')
      else case errors (toStr (getProp e ''name'')) of
             Some k \<Rightarrow> if k = 0 then None else Some (JNum (int k))
           | None \<Rightarrow>
               if toStr (getProp e ''name'') \<in> set objectPrototype
               then Some (JProto (toStr (getProp e ''name''))) else None)"
  by (simp add: knownStatus_def lookupError_def split: option.splits)







section \<open>Properties of the route compiler\<close>

lemma routeAt_setApiRoute:
  "routeAt (setApiRoute m k v sec) m1 k1 =
     (if m1 = m \<and> k1 = k then Some (Direct v) else routeAt sec m1 k1)"
  by (auto simp: routeAt_def setApiRoute_def AList.update_conv' split: option.splits)

lemma wrapLast_butlast: "rts \<noteq> [] \<Longrightarrow> wrapLast rts = butlast rts @ [wrapId (last rts)]"
  by (induction rts rule: induct_list012) auto

text \<open>
  C5. \<^verbatim>\<open>compileRestApiRoutesToApiRoutes\<close> puts \<^verbatim>\<open>getAll\<close> and \<^verbatim>\<open>post\<close>, as they
  are, under the route name \<^verbatim>\<open>''\<close> of \<^verbatim>\<open>apiRoutes.get\<close> and \<^verbatim>\<open>apiRoutes.post\<close>, and
  \<^verbatim>\<open>getOne\<close>, \<^verbatim>\<open>put\<close>, \<^verbatim>\<open>patch\<close> and \<^verbatim>\<open>delete\<close>, wrapped by \<^verbatim>\<open>wrapId\<close>, under
  \<^verbatim>\<open>:_id\<close>. A wrapped function calls the original with the request and
  \<^verbatim>\<open>req.params._id\<close>; of a non-empty array every entry but the last is kept and the last is
  wrapped.
\<close>

theorem compileRestApiRoutesToApiRoutes_spec:
  "(getAll (restApiRoutes self) \<noteq> Undef \<longrightarrow>
      routeAt (apiRoutes (compileRestApiRoutesToApiRoutes self)) ''get'' [] =
        Some (Direct (getAll (restApiRoutes self)))) \<and>
   (post (restApiRoutes self) \<noteq> Undef \<longrightarrow>
      routeAt (apiRoutes (compileRestApiRoutesToApiRoutes self)) ''post'' [] =
        Some (Direct (post (restApiRoutes self)))) \<and>
   (getOne (restApiRoutes self) \<noteq> Undef \<longrightarrow>
      routeAt (apiRoutes (compileRestApiRoutesToApiRoutes self)) ''get'' '':_id'' =
        Some (Direct (wrapId (getOne (restApiRoutes self))))) \<and>
   (put (restApiRoutes self) \<noteq> Undef \<longrightarrow>
      routeAt (apiRoutes (compileRestApiRoutesToApiRoutes self)) ''put'' '':_id'' =
        Some (Direct (wrapId (put (restApiRoutes self))))) \<and>
   (patch (restApiRoutes self) \<noteq> Undef \<longrightarrow>
      routeAt (apiRoutes (compileRestApiRoutesToApiRoutes self)) ''patch'' '':_id'' =
        Some (Direct (wrapId (patch (restApiRoutes self))))) \<and>
   (delete (restApiRoutes self) \<noteq> Undef \<longrightarrow>
      routeAt (apiRoutes (compileRestApiRoutesToApiRoutes self)) ''delete'' '':_id'' =
        Some (Direct (wrapId (delete (restApiRoutes self))))) \<and>
   (\<exists>g. wrapId (Fn f) = Fn g \<and> (\<forall>r x. g r x = f r (params__id r))) \<and>
   (rts \<noteq> [] \<longrightarrow> wrapId (Arr rts) = Arr (butlast rts @ [wrapId (last rts)]))"
  by (simp add: compileRestApiRoutesToApiRoutes_def Let_def routeAt_setApiRoute wrapLast_butlast)

theorem compileRestApiRoutesToApiRoutes_spec_witness:
  "routeAt (apiRoutes (compileRestApiRoutesToApiRoutes restModule)) ''get'' [] =
     Some (Direct (getAll (restApiRoutes restModule))) \<and>
   (\<exists>g. routeAt (apiRoutes (compileRestApiRoutesToApiRoutes restModule)) ''get'' '':_id'' =
          Some (Direct (Arr [Fn (\<lambda>r x. Resolves JUndefined), Fn g])) \<and>
        g (anonReq \<lparr> params__id := JStr ''abc'' \<rparr>) JUndefined = Resolves (JStr ''abc''))"
  using compileRestApiRoutesToApiRoutes_spec [of restModule "\<lambda>r x. Resolves x"
          "[Fn (\<lambda>r x. Resolves JUndefined), Fn (\<lambda>r x. Resolves x)]"]
  by (simp add: restModule_def)

lemma compileRoute_action:
  "action s = action self \<Longrightarrow>
   compileRoute cssName s section meth nm config = compileRoute cssName self section meth nm config"
  by (simp add: compileRoute_def)

lemma fold_push_inner:
  "action s = action self \<Longrightarrow>
   fold (\<lambda>(nm, config) s1.
           s1 \<lparr> self_routes := self_routes s1 @ [compileRoute cssName s1 section meth nm config] \<rparr>)
        rts s =
   s \<lparr> self_routes := self_routes s @
          map (\<lambda>(nm, config). compileRoute cssName self section meth nm config) rts \<rparr>"
proof (induction rts arbitrary: s)
  case Nil
  then show ?case by simp
next
  case (Cons a rts)
  then show ?case
    by (cases a) (simp add: compileRoute_action [of s self])
qed

lemma fold_push_outer:
  "action s = action self \<Longrightarrow>
   fold (\<lambda>(meth, rts) s0.
           fold (\<lambda>(nm, config) s1.
                   s1 \<lparr> self_routes :=
                          self_routes s1 @ [compileRoute cssName s1 section meth nm config] \<rparr>)
                rts s0)
        sec s =
   s \<lparr> self_routes := self_routes s @
          concat (map (\<lambda>(meth, rts).
                         map (\<lambda>(nm, config). compileRoute cssName self section meth nm config) rts)
                      sec) \<rparr>"
proof (induction sec arbitrary: s)
  case Nil
  then show ?case by simp
next
  case (Cons a sec)
  then show ?case
    by (cases a) (simp add: fold_push_inner [of s self])
qed

lemma compileSectionRoutes_append:
  "compileSectionRoutes cssName section self =
     self \<lparr> self_routes := self_routes self @ sectionRoutes cssName self section \<rparr>"
  by (simp add: compileSectionRoutes_def sectionRoutes_def fold_push_outer [of self self])

lemma sectionRoutes_cong:
  "action s = action self \<Longrightarrow> sectionOf section s = sectionOf section self \<Longrightarrow>
   sectionRoutes cssName s section = sectionRoutes cssName self section"
  by (simp add: sectionRoutes_def compileRoute_def)


lemma compileRoute_method_url:
  "http_method (compileRoute cssName self section meth nm config) = meth \<and>
   url (compileRoute cssName self section meth nm config) = getRouteUrl cssName (action self) nm"
  by (simp add: compileRoute_def Let_def split: config.splits route.splits)

lemma sectionRoutes_member:
  assumes "routeAt (sectionOf section self) meth nm = Some config"
  shows "compileRoute cssName self section meth nm config \<in> set (sectionRoutes cssName self section)"
proof -
  from assms obtain rts where
    a: "map_of (sectionOf section self) meth = Some rts" and b: "map_of rts nm = Some config"
    by (auto simp: routeAt_def split: option.splits)
  from a have "(meth, rts) \<in> set (sectionOf section self)" by (rule map_of_SomeD)
  moreover from b have "(nm, config) \<in> set rts" by (rule map_of_SomeD)
  ultimately show ?thesis
    by (force simp: sectionRoutes_def)
qed

text \<open>
  C3. After \<^verbatim>\<open>compileAllRoutes\<close> the route table of the module is what it was, followed
  by the routes of \<^verbatim>\<open>routes\<close>, then those of \<^verbatim>\<open>renderRoutes\<close>, then those of
  \<^verbatim>\<open>apiRoutes\<close> as left by the REST shorthand; with a \<^verbatim>\<open>getOne\<close> shorthand the last part
  has the GET route of the \<^verbatim>\<open>:_id\<close> wildcard.
\<close>

theorem compileAllRoutes_order:
  "self_routes (compileAllRoutes cssName self) =
     self_routes self @
     sectionRoutes cssName self Routes @
     sectionRoutes cssName self RenderRoutes @
     sectionRoutes cssName (compileRestApiRoutesToApiRoutes self) ApiRoutes \<and>
   (getOne (restApiRoutes self) \<noteq> Undef \<longrightarrow>
      (\<exists>cr \<in> set (sectionRoutes cssName (compileRestApiRoutesToApiRoutes self) ApiRoutes).
          http_method cr = ''get'' \<and> url cr = action self @ ''/:_id''))"
proof (intro conjI impI)
  let ?m = "compileRestApiRoutesToApiRoutes self"
  have m: "action ?m = action self" "routes ?m = routes self"
    "renderRoutes ?m = renderRoutes self" "self_routes ?m = self_routes self"
    by (simp_all add: compileRestApiRoutesToApiRoutes_def Let_def)
  have r: "sectionRoutes cssName ?m Routes = sectionRoutes cssName self Routes"
    by (rule sectionRoutes_cong) (simp_all add: m)
  have rr: "sectionRoutes cssName ?m RenderRoutes = sectionRoutes cssName self RenderRoutes"
    by (rule sectionRoutes_cong) (simp_all add: m)
  have s1: "sectionRoutes cssName (?m \<lparr> self_routes := xs \<rparr>) sn = sectionRoutes cssName ?m sn"
    for xs sn
    by (rule sectionRoutes_cong) (cases sn; simp)+
  show "self_routes (compileAllRoutes cssName self) =
     self_routes self @
     sectionRoutes cssName self Routes @
     sectionRoutes cssName self RenderRoutes @
     sectionRoutes cssName ?m ApiRoutes"
    by (simp add: compileAllRoutes_def compileSectionRoutes_append s1 r rr m)
next
  let ?m = "compileRestApiRoutesToApiRoutes self"
  assume "getOne (restApiRoutes self) \<noteq> Undef"
  then have "routeAt (sectionOf ApiRoutes ?m) ''get'' '':_id'' =
      Some (Direct (wrapId (getOne (restApiRoutes self))))"
    by (simp add: compileRestApiRoutesToApiRoutes_def Let_def routeAt_setApiRoute)
  then have "compileRoute cssName ?m ApiRoutes ''get'' '':_id''
               (Direct (wrapId (getOne (restApiRoutes self))))
             \<in> set (sectionRoutes cssName ?m ApiRoutes)"
    by (rule sectionRoutes_member)
  moreover have "action ?m = action self"
    by (simp add: compileRestApiRoutesToApiRoutes_def Let_def)
  ultimately show "\<exists>cr \<in> set (sectionRoutes cssName ?m ApiRoutes).
          http_method cr = ''get'' \<and> url cr = action self @ ''/:_id''"
    by (intro bexI [where x = "compileRoute cssName ?m ApiRoutes ''get'' '':_id''
               (Direct (wrapId (getOne (restApiRoutes self))))"])
       (simp_all add: compileRoute_method_url getRouteUrl_def)
qed

theorem compileAllRoutes_order_witness:
  "getOne (restApiRoutes restModule) \<noteq> Undef \<and>
   map (\<lambda>cr. (http_method cr, url cr)) (self_routes (compileAllRoutes hyphenate restModule)) =
     [(''post'', ''/api/v1/test/save-area''), (''get'', ''/api/v1/test/preview''),
      (''get'', ''/api/v1/test/count''), (''get'', ''/api/v1/test/''),
      (''get'', ''/api/v1/test/:_id'')]"
  using compileAllRoutes_order [of hyphenate restModule]
  by (simp add: sectionRoutes_def compileRoute_method_url getRouteUrl_def lowerOf_def
      compileRestApiRoutesToApiRoutes_def setApiRoute_def restModule_def Let_def)

end
